theory Spec2Isabelle
  imports Complex_Main
begin

section \<open>A 2D rotation matrix applied to one vector\<close>

text \<open>
  The script \<^verbatim>\<open>rotation_visualisierung.py\<close> builds the rotation matrix of a fixed
  angle with NumPy, applies it to the vector \<open>(1, 0)\<close>, prints both and draws an
  annotated figure that it saves to a file.

  NumPy's \<open>float64\<close> entries are idealised as real numbers, and \<open>np.cos\<close>, \<open>np.sin\<close>
  and \<open>np.radians\<close> as the real functions they approximate. Rounding error of the
  machine arithmetic is treated apart, in a second model of the builder in float64
  arithmetic, for the two properties whose truth over all angles depends on it. An
  \<open>ndarray\<close> is a list (one dimension) or a list of rows (two dimensions).
\<close>

subsection \<open>Arrays and exceptions\<close>

type_synonym vektor = "real list"
type_synonym matrix = "real list list"

datatype fehler = ValueError | LinAlgError | OSError string

subsection \<open>The matrix builder\<close>

text \<open>\<open>np.radians\<close>: degrees times \<open>pi / 180\<close>.\<close>

definition radians :: "real \<Rightarrow> real" where
  "radians grad = grad * pi / 180"

definition erstelle_rotationsmatrix :: "real \<Rightarrow> matrix" where
  "erstelle_rotationsmatrix winkel_grad =
     (let winkel_rad = radians winkel_grad;
          cos_theta = cos winkel_rad;
          sin_theta = sin winkel_rad
      in [[cos_theta, - sin_theta],
          [sin_theta, cos_theta]])"

subsection \<open>The operator \<open>@\<close>\<close>

text \<open>
  \<open>A @ v\<close> for a two-dimensional \<open>A\<close> and a one-dimensional \<open>v\<close>: every row of \<open>A\<close>
  is multiplied into \<open>v\<close>; NumPy raises \<open>ValueError\<close> when the row length of \<open>A\<close> is
  not the length of \<open>v\<close>.
\<close>

definition skalarprodukt :: "vektor \<Rightarrow> vektor \<Rightarrow> real" where
  "skalarprodukt xs ys = sum_list (map2 (*) xs ys)"

definition matmul_vektor :: "matrix \<Rightarrow> vektor \<Rightarrow> fehler + vektor" where
  "matmul_vektor A v =
     (if list_all (\<lambda>zeile. length zeile = length v) A
      then Inr (map (\<lambda>zeile. skalarprodukt zeile v) A)
      else Inl ValueError)"

text \<open>The shape test of the claims: two rows of two entries, and two entries.\<close>

definition ist_2x2 :: "matrix \<Rightarrow> bool" where
  "ist_2x2 A = (length A = 2 \<and> list_all (\<lambda>zeile. length zeile = 2) A)"

definition ist_2vektor :: "vektor \<Rightarrow> bool" where
  "ist_2vektor v = (length v = 2)"

subsection \<open>Matrix algebra in which the properties are stated\<close>

text \<open>
  The script itself never transposes, multiplies two matrices or takes a determinant or
  a norm; the properties of its matrix are stated with the usual definitions, which are
  what \<open>M.T\<close>, \<open>A @ B\<close>, \<open>np.linalg.det\<close> and \<open>np.linalg.norm\<close> compute.
\<close>

fun transponiere :: "matrix \<Rightarrow> matrix" where
  "transponiere [] = []"
| "transponiere [zeile] = map (\<lambda>x. [x]) zeile"
| "transponiere (zeile # rest) = map2 (#) zeile (transponiere rest)"

definition matmul_matrix :: "matrix \<Rightarrow> matrix \<Rightarrow> fehler + matrix" where
  "matmul_matrix A B =
     (if list_all (\<lambda>zeile. length zeile = length B) A
         \<and> list_all (\<lambda>zeile. length zeile = length (hd B)) B
      then Inr (map (\<lambda>zeile. map (skalarprodukt zeile) (transponiere B)) A)
      else Inl ValueError)"

fun det :: "matrix \<Rightarrow> fehler + real" where
  "det [[a, b], [c, d]] = Inr (a * d - b * c)"
| "det _ = Inl LinAlgError"

definition einheitsmatrix :: matrix where
  "einheitsmatrix = [[1, 0], [0, 1]]"

definition norm2 :: "vektor \<Rightarrow> real" where
  "norm2 v = sqrt (sum_list (map (\<lambda>x. x\<^sup>2) v))"

section \<open>Text output\<close>

subsection \<open>Formatting numbers\<close>

text \<open>
  \<open>str\<close> of an integer, and the format specification \<open>[width].<precision>f\<close> of a
  float: the value is rounded to the given number of decimal places (a tie goes to the
  even neighbour), written in fixed-point notation, and right-aligned with spaces in the
  width when one is given. The sign of a negative value stays when the digits round to
  zero. A real number has no negative zero, which \<open>float64\<close> prints with a minus sign.
\<close>

definition ziffer :: "nat \<Rightarrow> char" where
  "ziffer n = ''0123456789'' ! n"

fun ziffern :: "nat \<Rightarrow> string" where
  "ziffern n = (if n < 10 then [ziffer n] else ziffern (n div 10) @ [ziffer (n mod 10)])"

declare ziffern.simps [simp del]

definition str_int :: "int \<Rightarrow> string" where
  "str_int i = (if i < 0 then CHR ''-'' # ziffern (nat (- i)) else ziffern (nat i))"

definition rjust :: "nat \<Rightarrow> string \<Rightarrow> string" where
  "rjust breite s = replicate (breite - length s) (CHR '' '') @ s"

definition zfill :: "nat \<Rightarrow> string \<Rightarrow> string" where
  "zfill breite s = replicate (breite - length s) (CHR ''0'') @ s"

definition runde_gerade :: "real \<Rightarrow> int" where
  "runde_gerade x =
     (let f = \<lfloor>x\<rfloor>; r = x - of_int f
      in if r < 1 / 2 then f
         else if 1 / 2 < r then f + 1
         else if even f then f else f + 1)"

definition format_f :: "nat option \<Rightarrow> nat \<Rightarrow> real \<Rightarrow> string" where
  "format_f breite p x =
     (let n = nat (runde_gerade (\<bar>x\<bar> * 10 ^ p));
          s = (if x < 0 then ''-'' else [])
              @ ziffern (n div 10 ^ p)
              @ (if p = 0 then [] else CHR ''.'' # zfill p (ziffern (n mod 10 ^ p)))
      in case breite of None \<Rightarrow> s | Some w \<Rightarrow> rjust w s)"

text \<open>
  The number of characters after the decimal point of a rendered number, \<open>None\<close> when
  it has no decimal point.
\<close>

definition nachkommastellen :: "string \<Rightarrow> nat option" where
  "nachkommastellen s =
     (if CHR ''.'' \<in> set s
      then Some (length (takeWhile (\<lambda>c. c \<noteq> CHR ''.'') (rev s)))
      else None)"

subsection \<open>f-strings\<close>

text \<open>
  An f-string is a sequence of literal text and replacement fields. A field keeps the
  expression it prints (\<open>WINKEL\<close>, \<open>R[i,j]\<close>, \<open>original_vektor[i]\<close>,
  \<open>gedrehter_vektor[i]\<close>) beside its value: \<open>Ganz\<close> is an integer printed with no
  format specification, \<open>Fest\<close> a float printed with \<open>[width].<precision>f\<close>.
\<close>

datatype quelle = Q_WINKEL | Q_R nat nat | Q_original nat | Q_gedreht nat

datatype feld = Text string | Ganz quelle int | Fest quelle "nat option" nat real

fun feld_text :: "feld \<Rightarrow> string" where
  "feld_text (Text s) = s"
| "feld_text (Ganz q i) = str_int i"
| "feld_text (Fest q breite p x) = format_f breite p x"

definition fstring :: "feld list \<Rightarrow> string" where
  "fstring felder = concat (map feld_text felder)"

fun feld_quelle :: "feld \<Rightarrow> quelle option" where
  "feld_quelle (Text s) = None"
| "feld_quelle (Ganz q i) = Some q"
| "feld_quelle (Fest q breite p x) = Some q"

text \<open>
  A field that prints a matrix or vector value; a float field; an integer field; a field
  rendered with four decimal places.
\<close>

fun wertfeld :: "feld \<Rightarrow> bool" where
  "wertfeld (Text s) = False"
| "wertfeld (Ganz q i) = (q \<noteq> Q_WINKEL)"
| "wertfeld (Fest q breite p x) = (q \<noteq> Q_WINKEL)"

fun gleitfeld :: "feld \<Rightarrow> bool" where
  "gleitfeld (Fest q breite p x) = True"
| "gleitfeld f = False"

fun ganzfeld :: "feld \<Rightarrow> bool" where
  "ganzfeld (Ganz q i) = True"
| "ganzfeld f = False"

definition vier_stellen :: "feld \<Rightarrow> bool" where
  "vier_stellen f = (nachkommastellen (feld_text f) = Some 4)"

text \<open>
  Strings are the bytes of their UTF-8 encoding; the characters of the script outside
  ASCII are the degree sign, the middle dot, the letter u with diaeresis, the check mark
  and five box-drawing characters.
\<close>

definition nl :: string where "nl = [CHR 0x0A]"
definition apostroph :: string where "apostroph = [CHR 0x27]"
definition grad_zeichen :: string where "grad_zeichen = [CHR 0xC2, CHR 0xB0]"
definition malpunkt :: string where "malpunkt = [CHR 0xC2, CHR 0xB7]"
definition umlaut_ue :: string where "umlaut_ue = [CHR 0xC3, CHR 0xBC]"
definition haken :: string where "haken = [CHR 0xE2, CHR 0x9C, CHR 0x93]"
definition rahmen_ol :: string where "rahmen_ol = [CHR 0xE2, CHR 0x94, CHR 0x8C]"
definition rahmen_or :: string where "rahmen_or = [CHR 0xE2, CHR 0x94, CHR 0x90]"
definition rahmen_ul :: string where "rahmen_ul = [CHR 0xE2, CHR 0x94, CHR 0x94]"
definition rahmen_ur :: string where "rahmen_ur = [CHR 0xE2, CHR 0x94, CHR 0x98]"
definition rahmen_senkrecht :: string where "rahmen_senkrecht = [CHR 0xE2, CHR 0x94, CHR 0x82]"

section \<open>The script\<close>

subsection \<open>Its values\<close>

text \<open>
  \<open>WINKEL\<close> is a Python integer and \<open>original_vektor\<close> an integer array; \<open>@\<close> promotes
  the integer array to floats.
\<close>

definition WINKEL :: int where
  "WINKEL = 45"

definition R :: matrix where
  "R = erstelle_rotationsmatrix (real_of_int WINKEL)"

definition original_vektor :: "int list" where
  "original_vektor = [1, 0]"

definition gedrehter_vektor :: "fehler + vektor" where
  "gedrehter_vektor = matmul_vektor R (map real_of_int original_vektor)"

subsection \<open>The console report\<close>

text \<open>
  A printed line is text, or text followed by a whole array that \<open>print\<close> hands to
  NumPy's conversion of arrays to strings. That conversion is NumPy's, not the script's,
  and is left as the array it is given.
\<close>

datatype np_wert = GanzFeld "int list" | GleitFeld vektor | GleitMatrix matrix

datatype zeile = Textzeile string | Feldzeile string np_wert

definition trennlinie :: string where
  "trennlinie = replicate 50 (CHR ''='')"

definition konsole_matrix :: "zeile list" where
  "konsole_matrix =
     [Textzeile trennlinie,
      Textzeile (fstring [Text (''Rotationsmatrix f'' @ umlaut_ue @ ''r ''),
                          Ganz Q_WINKEL WINKEL, Text (grad_zeichen @ '':'')]),
      Textzeile trennlinie,
      Feldzeile [] (GleitMatrix R),
      Textzeile []]"

definition konsole_vektoren :: "vektor \<Rightarrow> zeile list" where
  "konsole_vektoren gv =
     [Feldzeile ''Original-Vektor:     '' (GanzFeld original_vektor),
      Feldzeile ''Gedrehter Vektor:    '' (GleitFeld gv),
      Textzeile []]"

definition bilddatei :: string where
  "bilddatei = ''rotation_visualisierung.png''"

definition konsole_fertig :: "zeile list" where
  "konsole_fertig =
     [Textzeile trennlinie,
      Textzeile (haken @ '' Visualisierung gespeichert als '' @ apostroph @ bilddatei @ apostroph),
      Textzeile trennlinie]"

subsection \<open>The text block of the figure\<close>

text \<open>
  The argument is the rotated vector. The arrays of the script have the shapes
  \<open>(2, 2)\<close> and \<open>(2,)\<close>, so every index below is in range.
\<close>

definition matrix_text_felder :: "vektor \<Rightarrow> feld list" where
  "matrix_text_felder gv =
     [Text ''Rotationsmatrix R('', Ganz Q_WINKEL WINKEL, Text (grad_zeichen @ '':'' @ nl),
      Text (rahmen_ol @ replicate 22 (CHR '' '') @ rahmen_or @ nl),
      Text (rahmen_senkrecht @ '' ''), Fest (Q_R 0 0) (Some 7) 4 (R ! 0 ! 0),
      Text ''  '', Fest (Q_R 0 1) (Some 7) 4 (R ! 0 ! 1),
      Text ('' '' @ rahmen_senkrecht @ nl),
      Text (rahmen_senkrecht @ '' ''), Fest (Q_R 1 0) (Some 7) 4 (R ! 1 ! 0),
      Text ''  '', Fest (Q_R 1 1) (Some 7) 4 (R ! 1 ! 1),
      Text ('' '' @ rahmen_senkrecht @ nl),
      Text (rahmen_ul @ replicate 22 (CHR '' '') @ rahmen_ur @ nl),
      Text nl,
      Text (''Berechnung:'' @ nl),
      Text (''v'' @ apostroph @ '' = R '' @ malpunkt @ '' v'' @ nl),
      Text ''['', Fest (Q_gedreht 0) None 4 (gv ! 0),
      Text '']   ['', Fest (Q_R 0 0) None 4 (R ! 0 ! 0),
      Text ''  '', Fest (Q_R 0 1) None 4 (R ! 0 ! 1),
      Text '']   ['', Ganz (Q_original 0) (original_vektor ! 0), Text ('']'' @ nl),
      Text ''['', Fest (Q_gedreht 1) None 4 (gv ! 1),
      Text ''] = ['', Fest (Q_R 1 0) None 4 (R ! 1 ! 0),
      Text ''  '', Fest (Q_R 1 1) None 4 (R ! 1 ! 1),
      Text (''] '' @ malpunkt @ '' [''), Ganz (Q_original 1) (original_vektor ! 1), Text '']'']"

definition matrix_text :: "vektor \<Rightarrow> string" where
  "matrix_text gv = fstring (matrix_text_felder gv)"

subsection \<open>The figure and the run\<close>

text \<open>
  Of the figure the model keeps the texts the script computes: the title, the labels of
  the four drawn elements in the order of the calls, the annotation of the angle and the
  text block. The curves, colours and axes play no part in the properties below.
\<close>

record abbildung =
  titel :: string
  beschriftungen :: "string list"
  winkel_text :: string
  textfeld :: string

definition abbildung_von :: "vektor \<Rightarrow> abbildung" where
  "abbildung_von gv =
     \<lparr>titel = fstring [Text ''2D-Rotationsmatrix: Drehung um '', Ganz Q_WINKEL WINKEL,
                       Text grad_zeichen],
      beschriftungen =
        [''Einheitskreis'',
         fstring [Text ''Original: ['', Ganz (Q_original 0) (original_vektor ! 0),
                  Text '', '', Ganz (Q_original 1) (original_vektor ! 1), Text '']''],
         fstring [Text ''Gedreht ('', Ganz Q_WINKEL WINKEL, Text (grad_zeichen @ ''): [''),
                  Fest (Q_gedreht 0) None 3 (gv ! 0), Text '', '',
                  Fest (Q_gedreht 1) None 3 (gv ! 1), Text '']''],
         fstring [Text ''Drehwinkel: '', Ganz Q_WINKEL WINKEL, Text grad_zeichen]],
      winkel_text = fstring [Ganz Q_WINKEL WINKEL, Text grad_zeichen],
      textfeld = matrix_text gv\<rparr>"

text \<open>
  The world the script acts on: the lines on standard output, the files written, and a
  count of the calls of \<open>savefig\<close>. Whether writing a path fails is decided by the
  file system, a parameter of the run. An exception ends the run where it is raised, for
  the script has no \<open>try\<close>; the interpreter then exits with status 1, and with status 0
  after the last statement.
\<close>

record welt =
  stdout :: "zeile list"
  dateien :: "string \<Rightarrow> abbildung option"
  schreibversuche :: nat

definition print_zeilen :: "zeile list \<Rightarrow> welt \<Rightarrow> welt" where
  "print_zeilen zs w = w\<lparr>stdout := stdout w @ zs\<rparr>"

definition savefig ::
  "(string \<Rightarrow> fehler option) \<Rightarrow> string \<Rightarrow> abbildung \<Rightarrow> welt \<Rightarrow> welt \<times> fehler option" where
  "savefig schreibfehler pfad fig w =
     (let w' = w\<lparr>schreibversuche := schreibversuche w + 1\<rparr>
      in case schreibfehler pfad of
           Some e \<Rightarrow> (w', Some e)
         | None \<Rightarrow> (w'\<lparr>dateien := (dateien w')(pfad \<mapsto> fig)\<rparr>, None))"

definition skript :: "(string \<Rightarrow> fehler option) \<Rightarrow> welt \<Rightarrow> welt \<times> fehler option" where
  "skript schreibfehler w0 =
     (let w1 = print_zeilen konsole_matrix w0
      in case gedrehter_vektor of
           Inl e \<Rightarrow> (w1, Some e)
         | Inr gv \<Rightarrow>
             (let w2 = print_zeilen (konsole_vektoren gv) w1;
                  (w3, ausnahme) = savefig schreibfehler bilddatei (abbildung_von gv) w2
              in case ausnahme of
                   Some e \<Rightarrow> (w3, Some e)
                 | None \<Rightarrow> (print_zeilen konsole_fertig w3, None)))"

definition exit_status :: "welt \<times> fehler option \<Rightarrow> nat" where
  "exit_status lauf = (case snd lauf of None \<Rightarrow> 0 | Some e \<Rightarrow> 1)"

definition leere_welt :: welt where
  "leere_welt = \<lparr>stdout = [], dateien = Map.empty, schreibversuche = 0\<rparr>"

section \<open>The builder in float64 arithmetic\<close>

text \<open>
  Where a property is claimed within a tolerance for every angle, the rounding of the
  machine arithmetic decides it, and the builder is modelled a second time in float64.
  \<open>fl\<close> rounds a real number to the nearest float64 number, a tie going to the even
  neighbour; the exponent range is taken as unbounded, so overflow and subnormal numbers
  are left out (no value below comes near either).

  \<open>np.radians\<close> multiplies the angle by the float64 constant \<open>NPY_PI / 180.0\<close>, both
  the constant and the product rounded. \<open>np.cos\<close> and \<open>np.sin\<close> are taken as
  correctly rounded; the library's results lie within a few units in the last place of
  that, about \<open>1e-16\<close>, which is far below every deviation and every margin proved here.
  The negation of a float64 number is exact.
\<close>

definition zwei_hoch :: "int \<Rightarrow> real" where
  "zwei_hoch e = (if 0 \<le> e then 2 ^ nat e else 1 / 2 ^ nat (- e))"

definition fl :: "real \<Rightarrow> real" where
  "fl x = (if x = 0 then 0
           else let e = \<lfloor>log 2 \<bar>x\<bar>\<rfloor>; u = zwei_hoch (e - 52)
                in of_int (runde_gerade (x / u)) * u)"

definition DEG2RAD :: real where
  "DEG2RAD = fl (fl pi / 180)"

definition np_radians :: "real \<Rightarrow> real" where
  "np_radians x = fl (x * DEG2RAD)"

definition np_cos :: "real \<Rightarrow> real" where
  "np_cos x = fl (cos x)"

definition np_sin :: "real \<Rightarrow> real" where
  "np_sin x = fl (sin x)"

definition erstelle_rotationsmatrix_f64 :: "real \<Rightarrow> matrix" where
  "erstelle_rotationsmatrix_f64 winkel_grad =
     (let winkel_rad = np_radians winkel_grad;
          cos_theta = np_cos winkel_rad;
          sin_theta = np_sin winkel_rad
      in [[cos_theta, - sin_theta],
          [sin_theta, cos_theta]])"

text \<open>
  Two numbers, and two arrays entry by entry, are equal within tolerance as
  \<open>np.isclose\<close> and \<open>np.allclose\<close> test it with their default tolerances:
  \<open>|a - b| \<le> 1e-8 + 1e-5 * |b|\<close>.
\<close>

definition isclose :: "real \<Rightarrow> real \<Rightarrow> bool" where
  "isclose a b = (\<bar>a - b\<bar> \<le> 1 / 10 ^ 8 + 1 / 10 ^ 5 * \<bar>b\<bar>)"

definition allclose :: "matrix \<Rightarrow> matrix \<Rightarrow> bool" where
  "allclose A B = list_all2 (list_all2 isclose) A B"

text \<open>The cosine series up to the tenth power, by which \<open>pi\<close> and cosines are bounded.\<close>

definition cos_poly :: "real \<Rightarrow> real" where
  "cos_poly x = 1 - x\<^sup>2 / 2 + x ^ 4 / 24 - x ^ 6 / 720 + x ^ 8 / 40320 - x ^ 10 / 3628800"

section \<open>Properties of the matrix builder\<close>

lemma ist_2x2_cases:
  "ist_2x2 A = (\<exists>a b c d. A = [[a, b], [c, d]])"
proof
  assume h: "ist_2x2 A"
  then obtain r1 r2 where A: "A = [r1, r2]"
    by (auto simp: ist_2x2_def length_Suc_conv numeral_2_eq_2)
  with h have "length r1 = 2" "length r2 = 2"
    by (simp_all add: ist_2x2_def)
  then obtain a b c d where "r1 = [a, b]" "r2 = [c, d]"
    by (auto simp: length_Suc_conv numeral_2_eq_2)
  with A show "\<exists>a b c d. A = [[a, b], [c, d]]" by blast
next
  assume "\<exists>a b c d. A = [[a, b], [c, d]]"
  then show "ist_2x2 A" by (auto simp: ist_2x2_def)
qed

lemma ist_2vektor_cases:
  "ist_2vektor v = (\<exists>x y. v = [x, y])"
  by (auto simp: ist_2vektor_def length_Suc_conv numeral_2_eq_2)

lemma matmul_vektor_2x2:
  "matmul_vektor [[a, b], [c, d]] [x, y] = Inr [a * x + b * y, c * x + d * y]"
  by (simp add: matmul_vektor_def skalarprodukt_def)

lemma matmul_matrix_2x2:
  "matmul_matrix [[a, b], [c, d]] [[e, f], [g, h]]
     = Inr [[a * e + b * g, a * f + b * h], [c * e + d * g, c * f + d * h]]"
  by (simp add: matmul_matrix_def skalarprodukt_def)

lemma rotationsmatrix_radians:
  "erstelle_rotationsmatrix th =
     [[cos (radians th), - sin (radians th)], [sin (radians th), cos (radians th)]]"
  by (simp add: erstelle_rotationsmatrix_def Let_def)

lemma radians_add: "radians (a + b) = radians a + radians b"
  by (simp add: radians_def algebra_simps add_divide_distrib)

lemma radians_360: "radians 360 = 2 * pi"
  by (simp add: radians_def)

lemma radians_0: "radians 0 = 0"
  by (simp add: radians_def)

lemma radians_45: "radians 45 = pi / 4"
  by (simp add: radians_def)

text \<open>
  C1. For every angle in degrees the builder returns
  \<open>[[cos th, - sin th], [sin th, cos th]]\<close>, where \<open>th\<close> is the angle in radians
  (the angle times \<open>pi / 180\<close>): the counter-clockwise rotation matrix, which turns
  the unit vector of the x axis to the point of the unit circle at that angle.
\<close>

theorem erstelle_rotationsmatrix_eintraege:
  "erstelle_rotationsmatrix winkel_grad =
     [[cos (winkel_grad * pi / 180), - sin (winkel_grad * pi / 180)],
      [sin (winkel_grad * pi / 180), cos (winkel_grad * pi / 180)]]
   \<and> matmul_vektor (erstelle_rotationsmatrix winkel_grad) [1, 0]
       = Inr [cos (winkel_grad * pi / 180), sin (winkel_grad * pi / 180)]"
  by (simp add: erstelle_rotationsmatrix_def radians_def Let_def matmul_vektor_2x2)

text \<open>
  C2. For every angle the matrix \<open>M\<close> of the builder is orthonormal: the transpose of
  \<open>M\<close> times \<open>M\<close> is the identity matrix and the determinant of \<open>M\<close> is 1.
\<close>

theorem erstelle_rotationsmatrix_orthonormal:
  "matmul_matrix (transponiere (erstelle_rotationsmatrix th)) (erstelle_rotationsmatrix th)
     = Inr einheitsmatrix
   \<and> det (erstelle_rotationsmatrix th) = Inr 1"
proof -
  define c where "c = cos (radians th)"
  define s where "s = sin (radians th)"
  have cs: "c * c + s * s = 1"
    using sin_cos_squared_add3 [of "radians th"] by (simp add: c_def s_def)
  have M: "erstelle_rotationsmatrix th = [[c, - s], [s, c]]"
    by (simp add: rotationsmatrix_radians c_def s_def)
  have T: "transponiere [[c, - s], [s, c]] = [[c, s], [- s, c]]"
    by simp
  have "matmul_matrix [[c, s], [- s, c]] [[c, - s], [s, c]] = Inr einheitsmatrix"
    using cs by (simp add: matmul_matrix_2x2 einheitsmatrix_def algebra_simps)
  moreover have "det [[c, - s], [s, c]] = Inr 1"
    using cs by simp
  ultimately show ?thesis by (simp add: M T)
qed

text \<open>
  C3. For every 2x2 matrix \<open>M\<close> and every 2-vector \<open>v\<close> the operator \<open>@\<close> returns the
  matrix-vector product, with components \<open>M00 * vx + M01 * vy\<close> and
  \<open>M10 * vx + M11 * vy\<close>.
\<close>

theorem matmul_vektor_produkt:
  assumes "ist_2x2 M" and "ist_2vektor v"
  shows "matmul_vektor M v =
           Inr [M ! 0 ! 0 * v ! 0 + M ! 0 ! 1 * v ! 1,
                M ! 1 ! 0 * v ! 0 + M ! 1 ! 1 * v ! 1]"
proof -
  from assms(1) obtain a b c d where M: "M = [[a, b], [c, d]]"
    by (auto simp: ist_2x2_cases)
  from assms(2) obtain x y where v: "v = [x, y]"
    by (auto simp: ist_2vektor_cases)
  show ?thesis
    unfolding M v by (simp add: matmul_vektor_2x2)
qed

theorem matmul_vektor_produkt_witness:
  "ist_2x2 [[1, 2], [3, 4]] \<and> ist_2vektor [5, 6]
   \<and> matmul_vektor [[1, 2], [3, 4]] [5, 6] = Inr [17, 39]"
proof -
  have m: "ist_2x2 [[1, 2], [3, 4]]" by (simp add: ist_2x2_def)
  have v: "ist_2vektor [5, 6]" by (simp add: ist_2vektor_def)
  show ?thesis
    using m v matmul_vektor_produkt [OF m v] by simp
qed

text \<open>
  In exact real arithmetic the matrices compose and are periodic for all angles; what
  holds of the float64 builder is shown in the last section.
\<close>

lemma rotation_komposition_reell:
  "matmul_matrix (erstelle_rotationsmatrix th1) (erstelle_rotationsmatrix th2)
     = Inr (erstelle_rotationsmatrix (th1 + th2))"
  by (simp add: rotationsmatrix_radians matmul_matrix_2x2 radians_add cos_add sin_add
        algebra_simps)

lemma rotation_periodisch_reell:
  "erstelle_rotationsmatrix 360 = erstelle_rotationsmatrix 0
   \<and> erstelle_rotationsmatrix (th + 360) = erstelle_rotationsmatrix th
   \<and> erstelle_rotationsmatrix (th + 360 * of_int k) = erstelle_rotationsmatrix th"
proof -
  have r: "radians (th + 360 * of_int k) = radians th + 2 * pi * of_int k"
    by (simp add: radians_def algebra_simps add_divide_distrib)
  have c: "cos (radians th + 2 * pi * of_int k) = cos (radians th)"
    by (simp add: cos_add)
  have s: "sin (radians th + 2 * pi * of_int k) = sin (radians th)"
    by (simp add: sin_add)
  have turns: "erstelle_rotationsmatrix (th + 360 * of_int k) = erstelle_rotationsmatrix th"
    by (simp add: rotationsmatrix_radians r c s)
  have one: "erstelle_rotationsmatrix (th + 360) = erstelle_rotationsmatrix th"
    by (simp add: rotationsmatrix_radians radians_add radians_360)
  have zero: "erstelle_rotationsmatrix 360 = erstelle_rotationsmatrix 0"
    by (simp add: rotationsmatrix_radians radians_360 radians_0)
  from zero one turns show ?thesis by simp
qed

text \<open>
  C7. The matrix built for 0 degrees is exactly the 2x2 identity matrix.
\<close>

theorem erstelle_rotationsmatrix_null:
  "erstelle_rotationsmatrix 0 = einheitsmatrix"
  by (simp add: rotationsmatrix_radians radians_0 einheitsmatrix_def)

text \<open>
  C8. Rotation preserves length: for every angle and every 2-vector \<open>v\<close> the product of
  the built matrix with \<open>v\<close> has the Euclidean norm of \<open>v\<close>; the determinant of the
  matrix is 1, so the map does not reflect either.
\<close>

theorem drehung_erhaelt_laenge:
  assumes "ist_2vektor v"
  shows "\<exists>w. matmul_vektor (erstelle_rotationsmatrix th) v = Inr w
             \<and> ist_2vektor w \<and> norm2 w = norm2 v
             \<and> det (erstelle_rotationsmatrix th) = Inr 1"
proof -
  from assms obtain x y where v: "v = [x, y]"
    by (auto simp: ist_2vektor_cases)
  define c where "c = cos (radians th)"
  define s where "s = sin (radians th)"
  have cs: "c\<^sup>2 + s\<^sup>2 = 1"
    by (simp add: c_def s_def)
  have M: "erstelle_rotationsmatrix th = [[c, - s], [s, c]]"
    by (simp add: rotationsmatrix_radians c_def s_def)
  have "(c * x + - s * y)\<^sup>2 + (s * x + c * y)\<^sup>2 = (c\<^sup>2 + s\<^sup>2) * (x\<^sup>2 + y\<^sup>2)"
    by (simp add: power2_eq_square algebra_simps)
  then have sq: "(c * x + - s * y)\<^sup>2 + (s * x + c * y)\<^sup>2 = x\<^sup>2 + y\<^sup>2"
    by (simp add: cs)
  have n: "norm2 [c * x + - s * y, s * x + c * y] = norm2 [x, y]"
    using sq by (simp add: norm2_def)
  have d: "det [[c, - s], [s, c]] = Inr 1"
    using cs by (simp add: power2_eq_square)
  show ?thesis
    unfolding M v using n d by (simp add: matmul_vektor_2x2 ist_2vektor_def)
qed

theorem drehung_erhaelt_laenge_witness:
  "ist_2vektor [3, 4]
   \<and> (\<exists>w. matmul_vektor (erstelle_rotationsmatrix 90) [3, 4] = Inr w
           \<and> ist_2vektor w \<and> norm2 w = norm2 [3, 4]
           \<and> det (erstelle_rotationsmatrix 90) = Inr 1)
   \<and> matmul_vektor (erstelle_rotationsmatrix 90) [3, 4] = Inr [- 4, 3]
   \<and> norm2 [3, 4] = 5"
proof -
  have v: "ist_2vektor [3, 4]" by (simp add: ist_2vektor_def)
  have r: "radians 90 = pi / 2" by (simp add: radians_def)
  have p: "matmul_vektor (erstelle_rotationsmatrix 90) [3, 4] = Inr [- 4, 3]"
    by (simp add: rotationsmatrix_radians r matmul_vektor_2x2)
  have "(3::real)\<^sup>2 + 4\<^sup>2 = 5\<^sup>2" by simp
  then have n: "norm2 [3, 4] = 5"
    by (simp add: norm2_def del: power2_eq_iff_nonneg)
  show ?thesis
    using v p n drehung_erhaelt_laenge [OF v, of 90] by simp
qed

section \<open>Properties of the text output\<close>

lemma ziffern_klein: "n < 10 \<Longrightarrow> ziffern n = [ziffer n]"
  by (simp add: ziffern.simps [of n])

lemma ziffern_gross: "10 \<le> n \<Longrightarrow> ziffern n = ziffern (n div 10) @ [ziffer (n mod 10)]"
  by (simp add: ziffern.simps [of n])

lemma ziffer_kein_punkt: "n < 10 \<Longrightarrow> ziffer n \<noteq> CHR ''.''"
proof -
  assume "n < 10"
  then have "n \<in> {0, 1, 2, 3, 4, 5, 6, 7, 8, 9}" by auto
  then show ?thesis by (auto simp: ziffer_def)
qed

lemma ziffern_kein_punkt: "CHR ''.'' \<notin> set (ziffern n)"
proof (induction n rule: ziffern.induct)
  case (1 n)
  show ?case
  proof (cases "n < 10")
    case True
    then show ?thesis
      using ziffer_kein_punkt [of n] by (simp add: ziffern.simps [of n])
  next
    case False
    have "n mod 10 < 10" by simp
    then have "ziffer (n mod 10) \<noteq> CHR ''.''" by (rule ziffer_kein_punkt)
    with False 1 show ?thesis
      by (auto simp add: ziffern.simps [of n])
  qed
qed

lemma length_ziffern: "n < 10 ^ Suc k \<Longrightarrow> length (ziffern n) \<le> Suc k"
proof (induction k arbitrary: n)
  case 0
  then show ?case by (simp add: ziffern.simps [of n])
next
  case (Suc k)
  show ?case
  proof (cases "n < 10")
    case True
    then show ?thesis by (simp add: ziffern.simps [of n])
  next
    case False
    from Suc.prems have "n div 10 < 10 ^ Suc k"
      by (simp add: less_mult_imp_div_less)
    then have "length (ziffern (n div 10)) \<le> Suc k" by (rule Suc.IH)
    with False show ?thesis by (simp add: ziffern.simps [of n])
  qed
qed

lemma length_zfill: "length s \<le> p \<Longrightarrow> length (zfill p s) = p"
  by (simp add: zfill_def)

lemma zfill_kein_punkt: "CHR ''.'' \<notin> set s \<Longrightarrow> CHR ''.'' \<notin> set (zfill p s)"
  by (auto simp: zfill_def)

lemma nachkommastellen_punkt:
  "CHR ''.'' \<notin> set nach \<Longrightarrow> nachkommastellen (vor @ CHR ''.'' # nach) = Some (length nach)"
proof -
  assume np: "CHR ''.'' \<notin> set nach"
  then have all: "takeWhile (\<lambda>c. c \<noteq> CHR ''.'') (rev nach) = rev nach"
    by (auto simp: takeWhile_eq_all_conv)
  have "takeWhile (\<lambda>c. c \<noteq> CHR ''.'') (rev nach @ CHR ''.'' # rev vor) = rev nach"
    using np by (simp add: takeWhile_tail all)
  then show ?thesis
    by (simp add: nachkommastellen_def)
qed

lemma nachkommastellen_format_f:
  assumes "0 < p"
  shows "nachkommastellen (format_f breite p x) = Some p"
proof -
  define n where "n = nat (runde_gerade (\<bar>x\<bar> * 10 ^ p))"
  define nach where "nach = zfill p (ziffern (n mod 10 ^ p))"
  from assms obtain k where p: "p = Suc k" by (cases p) auto
  have "n mod 10 ^ Suc k < 10 ^ Suc k" by simp
  then have "length (ziffern (n mod 10 ^ p)) \<le> p"
    unfolding p by (rule length_ziffern)
  then have len: "length nach = p"
    by (simp add: nach_def length_zfill)
  have np: "CHR ''.'' \<notin> set nach"
    by (simp add: nach_def zfill_kein_punkt ziffern_kein_punkt)
  obtain vor where "format_f breite p x = vor @ CHR ''.'' # nach"
    using assms
    by (cases breite) (simp_all add: format_f_def Let_def rjust_def n_def nach_def)
  then show ?thesis
    using np len by (simp add: nachkommastellen_punkt)
qed

lemma runde_gerade_eq:
  "of_int k - 1 / 2 < x \<Longrightarrow> x < of_int k + 1 / 2 \<Longrightarrow> runde_gerade x = k"
  unfolding runde_gerade_def Let_def
  by (auto; linarith)

lemma format_f_gerundet:
  "runde_gerade (\<bar>x\<bar> * 10 ^ p) = int n \<Longrightarrow>
   format_f breite p x =
     (let s = (if x < 0 then ''-'' else [])
              @ ziffern (n div 10 ^ p)
              @ (if p = 0 then [] else CHR ''.'' # zfill p (ziffern (n mod 10 ^ p)))
      in case breite of None \<Rightarrow> s | Some w \<Rightarrow> rjust w s)"
  by (simp add: format_f_def)

lemma wurzel2_unten: "14142 / 10000 < sqrt 2"
  by (rule real_less_rsqrt) (simp add: power2_eq_square)

lemma wurzel2_oben: "sqrt 2 < 14143 / 10000"
  by (rule real_less_lsqrt) (simp_all add: power2_eq_square)

lemma wurzel2_unten8: "141421355 / 100000000 < sqrt 2"
  by (rule real_less_rsqrt) (simp add: power2_eq_square)

lemma wurzel2_oben8: "sqrt 2 < 141421357 / 100000000"
  by (rule real_less_lsqrt) (simp_all add: power2_eq_square)

lemma gerundet_4: "runde_gerade (\<bar>sqrt 2 / 2\<bar> * 10 ^ 4) = int 7071"
  using wurzel2_unten wurzel2_oben by (intro runde_gerade_eq) simp_all

lemma gerundet_4_minus: "runde_gerade (\<bar>- (sqrt 2 / 2)\<bar> * 10 ^ 4) = int 7071"
  using wurzel2_unten wurzel2_oben by (intro runde_gerade_eq) simp_all

lemma gerundet_8: "runde_gerade (\<bar>sqrt 2 / 2\<bar> * 10 ^ 8) = int 70710678"
  using wurzel2_unten8 wurzel2_oben8 by (intro runde_gerade_eq) simp_all

lemma ziffern_7071: "ziffern 7071 = ''7071''"
  by (simp add: ziffern_klein ziffern_gross ziffer_def)

lemma ziffern_70710678: "ziffern 70710678 = ''70710678''"
  by (simp add: ziffern_klein ziffern_gross ziffer_def)

lemma ziffern_0: "ziffern 0 = ''0''"
  by (simp add: ziffern_klein ziffer_def)

lemma format_4: "format_f None 4 (sqrt 2 / 2) = ''0.7071''"
  by (simp add: format_f_gerundet [OF gerundet_4] zfill_def ziffern_7071 ziffern_0)

lemma format_4_minus: "format_f None 4 (- (sqrt 2 / 2)) = ''-0.7071''"
  by (simp add: format_f_gerundet [OF gerundet_4_minus] zfill_def ziffern_7071 ziffern_0)

lemma format_7_4: "format_f (Some 7) 4 (sqrt 2 / 2) = '' 0.7071''"
  by (simp add: format_f_gerundet [OF gerundet_4] zfill_def rjust_def ziffern_7071 ziffern_0)

lemma format_7_4_minus: "format_f (Some 7) 4 (- (sqrt 2 / 2)) = ''-0.7071''"
  by (simp add: format_f_gerundet [OF gerundet_4_minus] zfill_def rjust_def ziffern_7071
        ziffern_0)

lemma format_8: "format_f None 8 (sqrt 2 / 2) = ''0.70710678''"
  by (simp add: format_f_gerundet [OF gerundet_8] zfill_def ziffern_70710678 ziffern_0)

lemma str_int_45: "str_int 45 = ''45''"
  by (simp add: str_int_def ziffern_klein ziffern_gross ziffer_def)

lemma str_int_1: "str_int 1 = ''1''"
  by (simp add: str_int_def ziffern_klein ziffer_def)

lemma str_int_0: "str_int 0 = ''0''"
  by (simp add: str_int_def ziffern_klein ziffer_def)

lemma vier_stellen_Fest: "vier_stellen (Fest q breite 4 x)"
  by (simp add: vier_stellen_def nachkommastellen_format_f)

section \<open>Properties of the run\<close>

lemma R_45: "R = [[sqrt 2 / 2, - (sqrt 2 / 2)], [sqrt 2 / 2, sqrt 2 / 2]]"
  by (simp add: R_def WINKEL_def rotationsmatrix_radians radians_45 cos_45 sin_45)

lemma gedrehter_vektor_45: "gedrehter_vektor = Inr [sqrt 2 / 2, sqrt 2 / 2]"
  by (simp add: gedrehter_vektor_def R_45 original_vektor_def matmul_vektor_2x2)

lemma skript_fehler:
  "schreibfehler bilddatei = Some e \<Longrightarrow>
   skript schreibfehler w =
     (w\<lparr>stdout := stdout w @ konsole_matrix @ konsole_vektoren [sqrt 2 / 2, sqrt 2 / 2],
        schreibversuche := schreibversuche w + 1\<rparr>, Some e)"
  by (simp add: skript_def gedrehter_vektor_45 savefig_def print_zeilen_def Let_def)

lemma skript_erfolg:
  "schreibfehler bilddatei = None \<Longrightarrow>
   skript schreibfehler w =
     (w\<lparr>stdout := stdout w @ konsole_matrix @ konsole_vektoren [sqrt 2 / 2, sqrt 2 / 2]
                    @ konsole_fertig,
        dateien := (dateien w)(bilddatei \<mapsto> abbildung_von [sqrt 2 / 2, sqrt 2 / 2]),
        schreibversuche := schreibversuche w + 1\<rparr>, None)"
  by (simp add: skript_def gedrehter_vektor_45 savefig_def print_zeilen_def Let_def)

text \<open>
  C4. The matrix built for 45 degrees maps the vector \<open>(1, 0)\<close> to
  \<open>(sqrt 2 / 2, sqrt 2 / 2)\<close>, which is \<open>(0.7071, 0.7071)\<close> to within half a unit of
  the fourth decimal place. The script runs with the angle 45 and the vector \<open>(1, 0)\<close>,
  and whatever becomes of the file it prints the line of the rotated vector with these
  two components; rounded to four decimal places each is \<open>0.7071\<close>, and rounded to
  eight, the precision NumPy prints arrays with, \<open>0.70710678\<close>.
\<close>

theorem drehung_45_grad:
  "matmul_vektor (erstelle_rotationsmatrix 45) [1, 0] = Inr [sqrt 2 / 2, sqrt 2 / 2]
   \<and> \<bar>sqrt 2 / 2 - 7071 / 10000\<bar> < 5 / 100000
   \<and> WINKEL = 45 \<and> original_vektor = [1, 0]
   \<and> gedrehter_vektor = Inr [sqrt 2 / 2, sqrt 2 / 2]
   \<and> Feldzeile ''Gedrehter Vektor:    '' (GleitFeld [sqrt 2 / 2, sqrt 2 / 2])
        \<in> set (stdout (fst (skript schreibfehler w)))
   \<and> format_f None 4 (sqrt 2 / 2) = ''0.7071''
   \<and> format_f None 8 (sqrt 2 / 2) = ''0.70710678''"
proof -
  have a: "matmul_vektor (erstelle_rotationsmatrix 45) [1, 0] = Inr [sqrt 2 / 2, sqrt 2 / 2]"
    by (simp add: rotationsmatrix_radians radians_45 cos_45 sin_45 matmul_vektor_2x2)
  have b: "\<bar>sqrt 2 / 2 - 7071 / 10000\<bar> < 5 / 100000"
    using wurzel2_unten8 wurzel2_oben8 by simp
  have c: "Feldzeile ''Gedrehter Vektor:    '' (GleitFeld [sqrt 2 / 2, sqrt 2 / 2])
             \<in> set (stdout (fst (skript schreibfehler w)))"
  proof (cases "schreibfehler bilddatei")
    case None
    then show ?thesis by (simp add: skript_erfolg konsole_vektoren_def)
  next
    case (Some e)
    then show ?thesis by (simp add: skript_fehler konsole_vektoren_def)
  qed
  from a b c show ?thesis
    by (simp add: WINKEL_def original_vektor_def gedrehter_vektor_45 format_4 format_8)
qed

text \<open>
  C9, as stated, fails: the report does not print every matrix and vector value with
  four decimal places. In the text block of the run the fields that print a matrix or
  vector value are not all rendered with four decimal places: the field of
  \<open>original_vektor[0]\<close> is one of them and is rendered \<open>1\<close>, with no decimal point.
\<close>

theorem matrix_text_nicht_nur_vier_stellen:
  "gedrehter_vektor = Inr [sqrt 2 / 2, sqrt 2 / 2]
   \<and> \<not> list_all vier_stellen (filter wertfeld (matrix_text_felder [sqrt 2 / 2, sqrt 2 / 2]))
   \<and> wertfeld (Ganz (Q_original 0) (original_vektor ! 0))
   \<and> Ganz (Q_original 0) (original_vektor ! 0)
        \<in> set (matrix_text_felder [sqrt 2 / 2, sqrt 2 / 2])
   \<and> feld_text (Ganz (Q_original 0) (original_vektor ! 0)) = ''1''
   \<and> nachkommastellen ''1'' = None"
  by (simp add: gedrehter_vektor_45 matrix_text_felder_def original_vektor_def
        vier_stellen_Fest vier_stellen_def str_int_1 str_int_0 nachkommastellen_def)

text \<open>
  C9, amended. The report renders the angle, the matrix entries, the original vector and
  the rotated vector as text. In the text block every float field is rendered with four
  decimal places, and the float fields are exactly the matrix entries and the components
  of the rotated vector; the angle and the components of the original vector are integer
  fields, rendered \<open>45\<close>, \<open>1\<close> and \<open>0\<close> with no decimal places. For the run of the
  script the text block is the text given below, in which the boxed matrix entries are
  right-aligned in seven characters. On the console the angle is printed as \<open>45\<close> and
  the matrix and the two vectors are printed as whole arrays by NumPy.
\<close>

theorem matrix_text_formatierung:
  "list_all vier_stellen (filter gleitfeld (matrix_text_felder gv))
   \<and> map feld_quelle (filter gleitfeld (matrix_text_felder gv))
       = [Some (Q_R 0 0), Some (Q_R 0 1), Some (Q_R 1 0), Some (Q_R 1 1),
          Some (Q_gedreht 0), Some (Q_R 0 0), Some (Q_R 0 1),
          Some (Q_gedreht 1), Some (Q_R 1 0), Some (Q_R 1 1)]
   \<and> map (\<lambda>f. (feld_quelle f, feld_text f)) (filter ganzfeld (matrix_text_felder gv))
       = [(Some Q_WINKEL, ''45''), (Some (Q_original 0), ''1''), (Some (Q_original 1), ''0'')]
   \<and> matrix_text [sqrt 2 / 2, sqrt 2 / 2] =
       ''Rotationsmatrix R(45'' @ grad_zeichen @ '':'' @ nl
       @ rahmen_ol @ replicate 22 (CHR '' '') @ rahmen_or @ nl
       @ rahmen_senkrecht @ ''  0.7071  -0.7071 '' @ rahmen_senkrecht @ nl
       @ rahmen_senkrecht @ ''  0.7071   0.7071 '' @ rahmen_senkrecht @ nl
       @ rahmen_ul @ replicate 22 (CHR '' '') @ rahmen_ur @ nl
       @ nl
       @ ''Berechnung:'' @ nl
       @ ''v'' @ apostroph @ '' = R '' @ malpunkt @ '' v'' @ nl
       @ ''[0.7071]   [0.7071  -0.7071]   [1]'' @ nl
       @ ''[0.7071] = [0.7071  0.7071] '' @ malpunkt @ '' [0]''
   \<and> konsole_matrix @ konsole_vektoren gv =
       [Textzeile trennlinie,
        Textzeile (''Rotationsmatrix f'' @ umlaut_ue @ ''r 45'' @ grad_zeichen @ '':''),
        Textzeile trennlinie,
        Feldzeile [] (GleitMatrix R),
        Textzeile [],
        Feldzeile ''Original-Vektor:     '' (GanzFeld [1, 0]),
        Feldzeile ''Gedrehter Vektor:    '' (GleitFeld gv),
        Textzeile []]"
proof -
  have a: "list_all vier_stellen (filter gleitfeld (matrix_text_felder gv))"
    by (simp add: matrix_text_felder_def vier_stellen_Fest)
  have b: "map feld_quelle (filter gleitfeld (matrix_text_felder gv))
       = [Some (Q_R 0 0), Some (Q_R 0 1), Some (Q_R 1 0), Some (Q_R 1 1),
          Some (Q_gedreht 0), Some (Q_R 0 0), Some (Q_R 0 1),
          Some (Q_gedreht 1), Some (Q_R 1 0), Some (Q_R 1 1)]"
    by (simp add: matrix_text_felder_def)
  have c: "map (\<lambda>f. (feld_quelle f, feld_text f)) (filter ganzfeld (matrix_text_felder gv))
       = [(Some Q_WINKEL, ''45''), (Some (Q_original 0), ''1''), (Some (Q_original 1), ''0'')]"
    by (simp add: matrix_text_felder_def WINKEL_def original_vektor_def
          str_int_45 str_int_1 str_int_0)
  have d: "matrix_text [sqrt 2 / 2, sqrt 2 / 2] =
       ''Rotationsmatrix R(45'' @ grad_zeichen @ '':'' @ nl
       @ rahmen_ol @ replicate 22 (CHR '' '') @ rahmen_or @ nl
       @ rahmen_senkrecht @ ''  0.7071  -0.7071 '' @ rahmen_senkrecht @ nl
       @ rahmen_senkrecht @ ''  0.7071   0.7071 '' @ rahmen_senkrecht @ nl
       @ rahmen_ul @ replicate 22 (CHR '' '') @ rahmen_ur @ nl
       @ nl
       @ ''Berechnung:'' @ nl
       @ ''v'' @ apostroph @ '' = R '' @ malpunkt @ '' v'' @ nl
       @ ''[0.7071]   [0.7071  -0.7071]   [1]'' @ nl
       @ ''[0.7071] = [0.7071  0.7071] '' @ malpunkt @ '' [0]''"
    by (simp add: matrix_text_def fstring_def matrix_text_felder_def R_45 WINKEL_def
          original_vektor_def format_4 format_4_minus format_7_4 format_7_4_minus
          str_int_45 str_int_1 str_int_0)
  have e: "konsole_matrix @ konsole_vektoren gv =
       [Textzeile trennlinie,
        Textzeile (''Rotationsmatrix f'' @ umlaut_ue @ ''r 45'' @ grad_zeichen @ '':''),
        Textzeile trennlinie,
        Feldzeile [] (GleitMatrix R),
        Textzeile [],
        Feldzeile ''Original-Vektor:     '' (GanzFeld [1, 0]),
        Feldzeile ''Gedrehter Vektor:    '' (GleitFeld gv),
        Textzeile []]"
    by (simp add: konsole_matrix_def konsole_vektoren_def fstring_def WINKEL_def
          original_vektor_def str_int_45)
  from a b c d e show ?thesis by blast
qed

text \<open>
  C10. If writing the image file fails, the exception of \<open>savefig\<close> ends the run: it is
  the outcome of the script and the exit status is 1. The write was tried once and not
  again, no file was written, and standard output holds the report printed before and
  nothing after it: the closing message does not appear.
\<close>

theorem savefig_fehler_fatal:
  assumes "schreibfehler bilddatei = Some e"
  shows "snd (skript schreibfehler w) = Some e
       \<and> exit_status (skript schreibfehler w) = 1
       \<and> schreibversuche (fst (skript schreibfehler w)) = schreibversuche w + 1
       \<and> dateien (fst (skript schreibfehler w)) = dateien w
       \<and> stdout (fst (skript schreibfehler w))
           = stdout w @ konsole_matrix @ konsole_vektoren [sqrt 2 / 2, sqrt 2 / 2]"
  using assms by (simp add: skript_fehler exit_status_def)

theorem savefig_fehler_fatal_witness:
  "(\<lambda>pfad. Some (OSError ''Permission denied'')) bilddatei = Some (OSError ''Permission denied'')
   \<and> snd (skript (\<lambda>pfad. Some (OSError ''Permission denied'')) leere_welt)
       = Some (OSError ''Permission denied'')
   \<and> exit_status (skript (\<lambda>pfad. Some (OSError ''Permission denied'')) leere_welt) = 1
   \<and> schreibversuche (fst (skript (\<lambda>pfad. Some (OSError ''Permission denied'')) leere_welt)) = 1
   \<and> dateien (fst (skript (\<lambda>pfad. Some (OSError ''Permission denied'')) leere_welt)) bilddatei
       = None"
  using savefig_fehler_fatal [of "\<lambda>pfad. Some (OSError ''Permission denied'')"
      "OSError ''Permission denied''" leere_welt]
  by (simp add: leere_welt_def)

section \<open>Properties of the builder in float64 arithmetic\<close>

subsection \<open>Rounding\<close>

lemma zwei_hoch_powr: "zwei_hoch e = 2 powr real_of_int e"
  by (simp add: zwei_hoch_def powr_real_of_int inverse_eq_divide)

lemma zwei_hoch_pos: "0 < zwei_hoch e"
  by (simp add: zwei_hoch_def)

lemma zwei_hoch_add: "zwei_hoch (a + b) = zwei_hoch a * zwei_hoch b"
  by (simp add: zwei_hoch_powr powr_add)

lemma runde_gerade_fehler: "\<bar>of_int (runde_gerade x) - x\<bar> \<le> 1 / 2"
  unfolding runde_gerade_def Let_def
  by (auto; linarith)

lemma fl_wert:
  assumes "zwei_hoch e \<le> \<bar>x\<bar>" and "\<bar>x\<bar> < zwei_hoch (e + 1)"
    and "of_int k - 1 / 2 < x / zwei_hoch (e - 52)"
    and "x / zwei_hoch (e - 52) < of_int k + 1 / 2"
  shows "fl x = of_int k * zwei_hoch (e - 52)"
proof -
  have pos: "0 < \<bar>x\<bar>"
    using assms(1) zwei_hoch_pos [of e] by linarith
  then have x0: "x \<noteq> 0" by simp
  have "\<lfloor>log 2 \<bar>x\<bar>\<rfloor> = e"
    using pos assms(1,2) by (simp add: floor_log_eq_powr_iff zwei_hoch_powr)
  then show ?thesis
    using x0 runde_gerade_eq [OF assms(3,4)] by (simp add: fl_def Let_def)
qed

lemma fl_fehler: "\<bar>fl x - x\<bar> \<le> \<bar>x\<bar> / 2 ^ 53"
proof (cases "x = 0")
  case True
  then show ?thesis by (simp add: fl_def)
next
  case False
  define e where "e = \<lfloor>log 2 \<bar>x\<bar>\<rfloor>"
  define u where "u = zwei_hoch (e - 52)"
  have pos: "0 < \<bar>x\<bar>" using False by simp
  have u0: "0 < u" by (simp add: u_def zwei_hoch_pos)
  have lo: "zwei_hoch e \<le> \<bar>x\<bar>"
    using pos floor_log_eq_powr_iff [of "\<bar>x\<bar>" 2 e] by (simp add: e_def zwei_hoch_powr)
  have fl: "fl x = of_int (runde_gerade (x / u)) * u"
    using False by (simp add: fl_def e_def u_def Let_def)
  have "fl x - x = (of_int (runde_gerade (x / u)) - x / u) * u"
    using u0 by (simp add: fl algebra_simps)
  then have "\<bar>fl x - x\<bar> = \<bar>of_int (runde_gerade (x / u)) - x / u\<bar> * u"
    using u0 by (simp add: abs_mult)
  also have "\<dots> \<le> 1 / 2 * u"
    using runde_gerade_fehler [of "x / u"] u0 by (intro mult_right_mono) simp_all
  also have "\<dots> = zwei_hoch e / 2 ^ 53"
  proof -
    have "zwei_hoch e = zwei_hoch (e - 52) * zwei_hoch 52"
      using zwei_hoch_add [of "e - 52" 52] by simp
    then show ?thesis by (simp add: u_def zwei_hoch_def)
  qed
  also have "\<dots> \<le> \<bar>x\<bar> / 2 ^ 53"
    using lo by (simp add: divide_right_mono)
  finally show ?thesis .
qed

subsection \<open>Bounds on \<open>pi\<close> and on the constant of \<open>np.radians\<close>\<close>

lemma cos_summe_12:
  "(\<Sum>m<12. cos_coeff m * x ^ m) = cos_poly x"
  by (simp add: lessThan_nat_numeral lessThan_Suc cos_coeff_def fact_numeral cos_poly_def)

lemma cos_taylor:
  assumes "0 < x"
  shows "\<bar>cos x - cos_poly x\<bar> \<le> x ^ 12 / 479001600"
proof -
  obtain t where t: "cos x = (\<Sum>m<12. cos_coeff m * x ^ m)
      + (cos (t + 1 / 2 * real 12 * pi) / fact 12) * x ^ 12"
    using Maclaurin_cos_expansion2 [OF assms, of 12] by auto
  define c where "c = cos (t + 1 / 2 * real 12 * pi)"
  define r where "r = x ^ 12 / 479001600"
  have r0: "0 \<le> r" using assms by (simp add: r_def)
  have f: "(fact 12 :: real) = 479001600"
    by (simp add: fact_numeral)
  have "cos x - cos_poly x = c * r"
    using t unfolding cos_summe_12 f c_def r_def by simp
  then have "\<bar>cos x - cos_poly x\<bar> = \<bar>c\<bar> * r"
    using r0 by (simp add: abs_mult)
  also have "\<dots> \<le> 1 * r"
    using r0 by (intro mult_right_mono) (simp_all add: c_def)
  finally show ?thesis by (simp add: r_def)
qed

lemma pi_unten: "31414 / 10000 < pi"
proof -
  have "\<bar>cos (15707 / 10000) - cos_poly (15707 / 10000)\<bar> \<le> (15707 / 10000) ^ 12 / 479001600"
    by (rule cos_taylor) simp
  moreover have "(15707 / 10000) ^ 12 / 479001600 < cos_poly (15707 / 10000 :: real)"
    by (simp add: cos_poly_def power_divide)
  ultimately have pos: "0 < cos (15707 / 10000 :: real)" by linarith
  have "\<not> pi / 2 \<le> 15707 / 10000"
  proof
    assume h: "pi / 2 \<le> 15707 / 10000"
    have "cos (15707 / 10000) \<le> cos (pi / 2)"
      using h pi_ge_two by (intro cos_monotone_0_pi_le) simp_all
    with pos show False by simp
  qed
  then show ?thesis by simp
qed

lemma pi_oben: "pi < 31417 / 10000"
proof -
  have "\<bar>cos (157085 / 100000) - cos_poly (157085 / 100000)\<bar> \<le> (157085 / 100000) ^ 12 / 479001600"
    by (rule cos_taylor) simp
  moreover have "cos_poly (157085 / 100000 :: real) < - ((157085 / 100000) ^ 12 / 479001600)"
    by (simp add: cos_poly_def power_divide)
  ultimately have neg: "cos (157085 / 100000 :: real) < 0" by linarith
  have "\<not> 157085 / 100000 \<le> pi / 2"
  proof
    assume h: "157085 / 100000 \<le> pi / 2"
    have "0 \<le> cos (157085 / 100000 :: real)"
      using h by (intro cos_ge_zero) simp_all
    with neg show False by simp
  qed
  then show ?thesis by simp
qed

lemma fl_gitter:
  assumes "zwei_hoch e \<le> \<bar>x\<bar>" and "\<bar>x\<bar> < zwei_hoch (e + 1)"
  shows "\<exists>k. fl x = of_int k * zwei_hoch (e - 52)"
proof -
  have pos: "0 < \<bar>x\<bar>"
    using assms(1) zwei_hoch_pos [of e] by linarith
  then have x0: "x \<noteq> 0" by simp
  have "\<lfloor>log 2 \<bar>x\<bar>\<rfloor> = e"
    using pos assms by (simp add: floor_log_eq_powr_iff zwei_hoch_powr)
  then show ?thesis
    using x0 by (auto simp: fl_def Let_def)
qed

lemma fl_fehler_zahl: "\<bar>fl x - x\<bar> \<le> \<bar>x\<bar> / 9007199254740992"
  using fl_fehler [of x] by simp

lemma fl_pi: "\<bar>fl pi - pi\<bar> \<le> 1 / 2251799813685248"
  using fl_fehler_zahl [of pi] pi_less_4 pi_gt_zero by linarith

lemma DEG2RAD_fehler: "\<bar>DEG2RAD - pi / 180\<bar> \<le> 1 / 144115188075855872"
proof -
  define y where "y = fl pi / 180"
  have a: "\<bar>y - pi / 180\<bar> \<le> 1 / 288230376151711744"
    using fl_pi unfolding y_def by linarith
  have "\<bar>y\<bar> \<le> 1 / 32"
    using a pi_less_4 pi_gt_zero by linarith
  then have b: "\<bar>fl y - y\<bar> \<le> 1 / 288230376151711744"
    using fl_fehler_zahl [of y] by linarith
  have "DEG2RAD = fl y" by (simp add: DEG2RAD_def y_def)
  with a b show ?thesis by linarith
qed

lemma DEG2RAD_schranken: "17452 / 1000000 < DEG2RAD" "DEG2RAD < 17454 / 1000000"
  using DEG2RAD_fehler pi_unten pi_oben by linarith+

lemma DEG2RAD_gitter: "\<exists>K. DEG2RAD = of_int K / 2 ^ 58"
proof -
  define y where "y = fl pi / 180"
  have "\<bar>y - pi / 180\<bar> \<le> 1 / 288230376151711744"
    using fl_pi unfolding y_def by linarith
  then have "1 / 64 \<le> \<bar>y\<bar>" "\<bar>y\<bar> < 1 / 32"
    using pi_unten pi_oben by linarith+
  then have "zwei_hoch (- 6) \<le> \<bar>y\<bar>" "\<bar>y\<bar> < zwei_hoch (- 6 + 1)"
    by (simp_all add: zwei_hoch_def)
  then obtain k where "fl y = of_int k * zwei_hoch (- 6 - 52)"
    using fl_gitter by blast
  then show ?thesis
    by (auto simp: DEG2RAD_def y_def zwei_hoch_def)
qed

subsection \<open>Large angles\<close>

lemma np_radians_gross:
  "\<exists>K. np_radians (2 ^ 53) = of_int K / 32 \<and> np_radians (2 ^ 53 + 360) = of_int (K + 201) / 32"
proof -
  obtain K where K: "DEG2RAD = of_int K / 2 ^ 58"
    using DEG2RAD_gitter by blast
  have lo: "17452 / 1000000 < real_of_int K / 2 ^ 58" and hi: "real_of_int K / 2 ^ 58 < 17454 / 1000000"
    using DEG2RAD_schranken by (simp_all add: K)
  have u: "zwei_hoch (- 5) = 1 / 32" by (simp add: zwei_hoch_def)
  have x1: "2 ^ 53 * DEG2RAD = of_int K / 32" by (simp add: K)
  have u47: "zwei_hoch (47 - 52) = 1 / 32" by (simp add: zwei_hoch_def)
  have "fl (of_int K / 32) = of_int K * zwei_hoch (47 - 52)"
  proof (rule fl_wert)
    show "zwei_hoch 47 \<le> \<bar>real_of_int K / 32\<bar>"
      using lo by (simp add: zwei_hoch_def)
    show "\<bar>real_of_int K / 32\<bar> < zwei_hoch (47 + 1)"
      using lo hi by (simp add: zwei_hoch_def)
    show "real_of_int K - 1 / 2 < real_of_int K / 32 / zwei_hoch (47 - 52)"
      by (simp add: u)
    show "real_of_int K / 32 / zwei_hoch (47 - 52) < real_of_int K + 1 / 2"
      by (simp add: u)
  qed
  then have a: "np_radians (2 ^ 53) = of_int K / 32"
    unfolding np_radians_def x1 u47 by simp
  define x where "x = (2 ^ 53 + 360) * DEG2RAD"
  have x2: "x = of_int K / 32 + 360 * (of_int K / 2 ^ 58)"
    by (simp add: x_def K algebra_simps)
  have "fl x = of_int (K + 201) * zwei_hoch (47 - 52)"
  proof (rule fl_wert)
    show "zwei_hoch 47 \<le> \<bar>x\<bar>"
      using lo by (simp add: zwei_hoch_def x2)
    show "\<bar>x\<bar> < zwei_hoch (47 + 1)"
      using lo hi by (simp add: zwei_hoch_def x2)
    show "real_of_int (K + 201) - 1 / 2 < x / zwei_hoch (47 - 52)"
      using lo by (simp add: u x2)
    show "x / zwei_hoch (47 - 52) < real_of_int (K + 201) + 1 / 2"
      using hi by (simp add: u x2)
  qed
  then have b: "np_radians (2 ^ 53 + 360) = of_int (K + 201) / 32"
    unfolding np_radians_def x_def u47 by simp
  from a b show ?thesis by blast
qed

lemma rotationsmatrix_f64:
  "erstelle_rotationsmatrix_f64 th =
     [[np_cos (np_radians th), - np_sin (np_radians th)],
      [np_sin (np_radians th), np_cos (np_radians th)]]"
  by (simp add: erstelle_rotationsmatrix_f64_def Let_def)

lemma np_cos_fehler: "\<bar>np_cos x - cos x\<bar> \<le> 1 / 9007199254740992"
proof -
  have "\<bar>cos x\<bar> \<le> 1" by simp
  then show ?thesis
    using fl_fehler_zahl [of "cos x"] unfolding np_cos_def by linarith
qed

lemma np_sin_fehler: "\<bar>np_sin x - sin x\<bar> \<le> 1 / 9007199254740992"
proof -
  have "\<bar>sin x\<bar> \<le> 1" by simp
  then show ?thesis
    using fl_fehler_zahl [of "sin x"] unfolding np_sin_def by linarith
qed

lemma sehne: "(cos b - cos a)\<^sup>2 + (sin b - sin a)\<^sup>2 = 2 - 2 * cos (b - a)" for a b :: real
proof -
  have "(cos b - cos a)\<^sup>2 + (sin b - sin a)\<^sup>2
      = ((cos a)\<^sup>2 + (sin a)\<^sup>2) + ((cos b)\<^sup>2 + (sin b)\<^sup>2)
        - 2 * (cos b * cos a + sin b * sin a)"
    by (simp add: power2_eq_square algebra_simps)
  then show ?thesis by (simp add: cos_diff)
qed

lemma cos_201_32: "cos (201 / 32 :: real) \<le> 1 - 12 / 10000000"
proof -
  define d where "d = 2 * pi - 201 / 32"
  have d_lo: "155 / 100000 \<le> d" and d_hi: "d \<le> pi"
    using pi_unten pi_oben by (simp_all add: d_def)
  have "cos (201 / 32 :: real) = cos (- d + 2 * pi)" by (simp add: d_def)
  also have "\<dots> = cos d" by (simp add: cos_add)
  finally have eq: "cos (201 / 32 :: real) = cos d" .
  have m: "cos d \<le> cos (155 / 100000)"
    using d_lo d_hi by (intro cos_monotone_0_pi_le) simp_all
  have "\<bar>cos (155 / 100000 :: real) - cos_poly (155 / 100000)\<bar> \<le> (155 / 100000) ^ 12 / 479001600"
    by (rule cos_taylor) simp
  moreover have "cos_poly (155 / 100000) + (155 / 100000) ^ 12 / 479001600
      \<le> 1 - (12 / 10000000 :: real)"
    by (simp add: cos_poly_def power_divide)
  ultimately have "cos (155 / 100000 :: real) \<le> 1 - (12 / 10000000 :: real)" by linarith
  with m eq show ?thesis by linarith
qed

lemma quadrat_klein: "\<bar>a\<bar> < r \<Longrightarrow> a\<^sup>2 < r\<^sup>2" for a r :: real
  using power_strict_mono [of "\<bar>a\<bar>" r 2] by simp

lemma abweichung_gross:
  fixes a b :: real
  assumes "b - a = 201 / 32"
  shows "109 / 100000 \<le> \<bar>cos b - cos a\<bar> \<or> 109 / 100000 \<le> \<bar>sin b - sin a\<bar>"
proof (rule ccontr)
  assume "\<not> ?thesis"
  then have c: "\<bar>cos b - cos a\<bar> < 109 / 100000" and s: "\<bar>sin b - sin a\<bar> < 109 / 100000"
    by simp_all
  have "(cos b - cos a)\<^sup>2 < (109 / 100000)\<^sup>2" using c by (rule quadrat_klein)
  moreover have "(sin b - sin a)\<^sup>2 < (109 / 100000)\<^sup>2" using s by (rule quadrat_klein)
  moreover have "(cos b - cos a)\<^sup>2 + (sin b - sin a)\<^sup>2 = 2 - 2 * cos (201 / 32 :: real)"
    using sehne [of b a] assms by simp
  moreover have "((109 / 100000)\<^sup>2 :: real) = 11881 / 10000000000"
    by (simp add: power2_eq_square)
  ultimately show False using cos_201_32 by linarith
qed

lemma abweichung_f64:
  "108 / 100000 \<le> \<bar>np_cos (np_radians (2 ^ 53 + 360)) - np_cos (np_radians (2 ^ 53))\<bar>
   \<or> 108 / 100000 \<le> \<bar>np_sin (np_radians (2 ^ 53 + 360)) - np_sin (np_radians (2 ^ 53))\<bar>"
proof -
  obtain K where a: "np_radians (2 ^ 53) = of_int K / 32"
    and b: "np_radians (2 ^ 53 + 360) = of_int (K + 201) / 32"
    using np_radians_gross by blast
  have "np_radians (2 ^ 53 + 360) - np_radians (2 ^ 53) = 201 / 32"
    unfolding a b by (simp add: add_divide_distrib)
  then have "109 / 100000 \<le> \<bar>cos (np_radians (2 ^ 53 + 360)) - cos (np_radians (2 ^ 53))\<bar>
      \<or> 109 / 100000 \<le> \<bar>sin (np_radians (2 ^ 53 + 360)) - sin (np_radians (2 ^ 53))\<bar>"
    by (rule abweichung_gross)
  then show ?thesis
    using np_cos_fehler [of "np_radians (2 ^ 53 + 360)"] np_cos_fehler [of "np_radians (2 ^ 53)"]
      np_sin_fehler [of "np_radians (2 ^ 53 + 360)"] np_sin_fehler [of "np_radians (2 ^ 53)"]
    by linarith
qed

lemma np_cos_betrag: "\<bar>np_cos x\<bar> \<le> 2"
  using np_cos_fehler [of x] abs_cos_le_one [of x] by linarith

lemma np_sin_betrag: "\<bar>np_sin x\<bar> \<le> 2"
  using np_sin_fehler [of x] abs_sin_le_one [of x] by linarith

lemma isclose_zahl: "isclose a b = (\<bar>a - b\<bar> \<le> 1 / 100000000 + \<bar>b\<bar> / 100000)"
  by (simp add: isclose_def)

lemma nicht_isclose: "1 / 1000 \<le> \<bar>a - b\<bar> \<Longrightarrow> \<bar>b\<bar> \<le> 2 \<Longrightarrow> \<not> isclose a b"
  unfolding isclose_zahl by linarith

text \<open>
  C6, as stated, fails in the arithmetic of the code: the builder is not 360-degree
  periodic for every angle. The angles \<open>2 ^ 53\<close> and \<open>2 ^ 53 + 360\<close> are both float64
  numbers; their radian values are rounded to multiples of \<open>1 / 32\<close> and differ by
  \<open>201 / 32\<close>, which misses a full turn by about \<open>0.0019\<close>. The two matrices differ
  by more than \<open>0.00108\<close> in an entry and are not equal within tolerance.
\<close>

theorem periodizitaet_f64_verletzt:
  "\<not> allclose (erstelle_rotationsmatrix_f64 (2 ^ 53 + 360)) (erstelle_rotationsmatrix_f64 (2 ^ 53))
   \<and> (108 / 100000 \<le> \<bar>np_cos (np_radians (2 ^ 53 + 360)) - np_cos (np_radians (2 ^ 53))\<bar>
      \<or> 108 / 100000 \<le> \<bar>np_sin (np_radians (2 ^ 53 + 360)) - np_sin (np_radians (2 ^ 53))\<bar>)"
proof -
  from abweichung_f64 have "\<not> isclose (np_cos (np_radians (2 ^ 53 + 360))) (np_cos (np_radians (2 ^ 53)))
      \<or> \<not> isclose (np_sin (np_radians (2 ^ 53 + 360))) (np_sin (np_radians (2 ^ 53)))"
  proof
    assume "108 / 100000 \<le> \<bar>np_cos (np_radians (2 ^ 53 + 360)) - np_cos (np_radians (2 ^ 53))\<bar>"
    then have "\<not> isclose (np_cos (np_radians (2 ^ 53 + 360))) (np_cos (np_radians (2 ^ 53)))"
      by (intro nicht_isclose np_cos_betrag) linarith
    then show ?thesis by blast
  next
    assume "108 / 100000 \<le> \<bar>np_sin (np_radians (2 ^ 53 + 360)) - np_sin (np_radians (2 ^ 53))\<bar>"
    then have "\<not> isclose (np_sin (np_radians (2 ^ 53 + 360))) (np_sin (np_radians (2 ^ 53)))"
      by (intro nicht_isclose np_sin_betrag) linarith
    then show ?thesis by blast
  qed
  then have "\<not> allclose (erstelle_rotationsmatrix_f64 (2 ^ 53 + 360)) (erstelle_rotationsmatrix_f64 (2 ^ 53))"
    by (auto simp: allclose_def rotationsmatrix_f64)
  with abweichung_f64 show ?thesis by blast
qed

subsection \<open>Angles up to a million degrees\<close>

lemma cos_lipschitz: "\<bar>cos a - cos b\<bar> \<le> \<bar>a - b\<bar>" for a b :: real
proof -
  have "\<bar>cos a - cos b\<bar> = 2 * (\<bar>sin ((a + b) / 2)\<bar> * \<bar>sin ((b - a) / 2)\<bar>)"
    by (simp add: cos_diff_cos abs_mult)
  also have "\<dots> \<le> 2 * (1 * \<bar>(b - a) / 2\<bar>)"
    by (intro mult_left_mono mult_mono abs_sin_x_le_abs_x) simp_all
  finally show ?thesis by simp
qed

lemma sin_lipschitz: "\<bar>sin a - sin b\<bar> \<le> \<bar>a - b\<bar>" for a b :: real
proof -
  have "\<bar>sin a - sin b\<bar> = 2 * (\<bar>sin ((a - b) / 2)\<bar> * \<bar>cos ((a + b) / 2)\<bar>)"
    by (simp add: sin_diff_sin abs_mult)
  also have "\<dots> \<le> 2 * (\<bar>(a - b) / 2\<bar> * 1)"
    by (intro mult_left_mono mult_mono abs_sin_x_le_abs_x) simp_all
  finally show ?thesis by simp
qed

lemma np_radians_fehler:
  assumes "\<bar>th\<bar> \<le> 3000000"
  shows "\<bar>np_radians th - radians th\<bar> \<le> 1 / 10000000000"
proof -
  have "\<bar>th * DEG2RAD - th * (pi / 180)\<bar> = \<bar>th\<bar> * \<bar>DEG2RAD - pi / 180\<bar>"
    by (simp add: abs_mult [symmetric] algebra_simps)
  also have "\<dots> \<le> 3000000 * (1 / 144115188075855872)"
    using assms DEG2RAD_fehler by (intro mult_mono) simp_all
  finally have a: "\<bar>th * DEG2RAD - th * (pi / 180)\<bar> \<le> 3000000 / 144115188075855872"
    by simp
  have "\<bar>th * DEG2RAD\<bar> = \<bar>th\<bar> * \<bar>DEG2RAD\<bar>" by (simp add: abs_mult)
  also have "\<dots> \<le> 3000000 * (17454 / 1000000)"
    using assms DEG2RAD_schranken by (intro mult_mono) simp_all
  finally have "\<bar>th * DEG2RAD\<bar> \<le> 52362" by simp
  then have b: "\<bar>fl (th * DEG2RAD) - th * DEG2RAD\<bar> \<le> 52362 / 9007199254740992"
    using fl_fehler_zahl [of "th * DEG2RAD"] by linarith
  have "radians th = th * (pi / 180)" by (simp add: radians_def)
  with a b show ?thesis unfolding np_radians_def by linarith
qed

lemma genauigkeit:
  assumes "\<bar>s\<bar> \<le> 2000001" and "\<bar>t - s\<bar> \<le> 1 / 1000000000"
  shows "\<bar>np_cos (np_radians t) - cos (radians s)\<bar> \<le> 3 / 10000000000"
    and "\<bar>np_sin (np_radians t) - sin (radians s)\<bar> \<le> 3 / 10000000000"
proof -
  have t: "\<bar>t\<bar> \<le> 3000000" using assms by linarith
  have r: "\<bar>np_radians t - radians t\<bar> \<le> 1 / 10000000000"
    using t by (rule np_radians_fehler)
  have e: "radians t - radians s = (t - s) * (pi / 180)"
    by (simp add: radians_def algebra_simps)
  have "\<bar>radians t - radians s\<bar> = \<bar>t - s\<bar> * \<bar>pi / 180\<bar>"
    unfolding e by (rule abs_mult)
  also have "\<dots> \<le> 1 / 1000000000 * (4 / 180)"
    using assms(2) pi_less_4 by (intro mult_mono) simp_all
  finally have d: "\<bar>radians t - radians s\<bar> \<le> 1 / 10000000000" by simp
  have x: "\<bar>np_radians t - radians s\<bar> \<le> 2 / 10000000000"
    using r d by linarith
  show "\<bar>np_cos (np_radians t) - cos (radians s)\<bar> \<le> 3 / 10000000000"
    using np_cos_fehler [of "np_radians t"] cos_lipschitz [of "np_radians t" "radians s"] x
    by linarith
  show "\<bar>np_sin (np_radians t) - sin (radians s)\<bar> \<le> 3 / 10000000000"
    using np_sin_fehler [of "np_radians t"] sin_lipschitz [of "np_radians t" "radians s"] x
    by linarith
qed

lemma fl_nahe: "\<bar>s\<bar> \<le> 2000001 \<Longrightarrow> \<bar>fl s - s\<bar> \<le> 1 / 1000000000"
  using fl_fehler_zahl [of s] by linarith

lemma isclose_nahe: "\<bar>a - b\<bar> \<le> 1 / 100000000 \<Longrightarrow> isclose a b"
  unfolding isclose_zahl by linarith

lemma allclose_rotation:
  assumes "\<bar>c - c'\<bar> \<le> 1 / 100000000" and "\<bar>s - s'\<bar> \<le> 1 / 100000000"
  shows "allclose [[c, - s], [s, c]] [[c', - s'], [s', c']]"
proof -
  have "\<bar>- s - - s'\<bar> \<le> 1 / 100000000" using assms(2) by linarith
  then have "isclose (- s) (- s')" by (rule isclose_nahe)
  moreover have "isclose c c'" using assms(1) by (rule isclose_nahe)
  moreover have "isclose s s'" using assms(2) by (rule isclose_nahe)
  ultimately show ?thesis by (simp add: allclose_def)
qed

lemma periodisch_f64_nahe:
  assumes "\<bar>th\<bar> \<le> 1000000" and "\<bar>t - (th + 360)\<bar> \<le> 1 / 1000000000"
  shows "allclose (erstelle_rotationsmatrix_f64 t) (erstelle_rotationsmatrix_f64 th)"
proof -
  have s: "\<bar>th + 360\<bar> \<le> 2000001" using assms(1) by linarith
  have p: "radians (th + 360) = radians th + 2 * pi"
    by (simp add: radians_add radians_360)
  have a: "\<bar>np_cos (np_radians t) - cos (radians th)\<bar> \<le> 3 / 10000000000"
    and b: "\<bar>np_sin (np_radians t) - sin (radians th)\<bar> \<le> 3 / 10000000000"
    using genauigkeit [OF s assms(2)] by (simp_all add: p)
  have th: "\<bar>th\<bar> \<le> 2000001" using assms(1) by linarith
  have c: "\<bar>np_cos (np_radians th) - cos (radians th)\<bar> \<le> 3 / 10000000000"
    and d: "\<bar>np_sin (np_radians th) - sin (radians th)\<bar> \<le> 3 / 10000000000"
    using genauigkeit [OF th, of th] by simp_all
  show ?thesis
    unfolding rotationsmatrix_f64
    by (rule allclose_rotation) (use a b c d in linarith)+
qed

text \<open>
  C6, amended. The matrix built for 360 degrees equals the matrix built for 0 degrees
  within tolerance, and for every angle \<open>th\<close> of at most \<open>10 ^ 6\<close> degrees in
  magnitude the matrix built for \<open>th + 360\<close> (the sum exact, or rounded to float64 as
  the machine adds) equals the matrix built for \<open>th\<close> within tolerance, in float64
  arithmetic. In exact real arithmetic, of which the code is an approximation, the
  matrices for \<open>th\<close>, \<open>th + 360\<close> and \<open>th\<close> plus any whole number of turns are equal
  for every angle.
\<close>

theorem periodisch_f64:
  "(\<bar>th\<bar> \<le> 1000000 \<longrightarrow>
      allclose (erstelle_rotationsmatrix_f64 (th + 360)) (erstelle_rotationsmatrix_f64 th)
      \<and> allclose (erstelle_rotationsmatrix_f64 (fl (th + 360))) (erstelle_rotationsmatrix_f64 th))
   \<and> allclose (erstelle_rotationsmatrix_f64 360) (erstelle_rotationsmatrix_f64 0)
   \<and> erstelle_rotationsmatrix 360 = erstelle_rotationsmatrix 0
   \<and> erstelle_rotationsmatrix (th + 360) = erstelle_rotationsmatrix th
   \<and> erstelle_rotationsmatrix (th + 360 * of_int k) = erstelle_rotationsmatrix th"
proof -
  have a: "allclose (erstelle_rotationsmatrix_f64 (th + 360)) (erstelle_rotationsmatrix_f64 th)"
    if "\<bar>th\<bar> \<le> 1000000"
    using that by (rule periodisch_f64_nahe) simp
  have b: "allclose (erstelle_rotationsmatrix_f64 (fl (th + 360))) (erstelle_rotationsmatrix_f64 th)"
    if "\<bar>th\<bar> \<le> 1000000"
  proof (rule periodisch_f64_nahe [OF that])
    have "\<bar>th + 360\<bar> \<le> 2000001" using that by linarith
    then show "\<bar>fl (th + 360) - (th + 360)\<bar> \<le> 1 / 1000000000" by (rule fl_nahe)
  qed
  have c: "allclose (erstelle_rotationsmatrix_f64 360) (erstelle_rotationsmatrix_f64 0)"
    using periodisch_f64_nahe [of 0 360] by simp
  from a b c show ?thesis
    using rotation_periodisch_reell [of th k] by blast
qed

theorem periodisch_f64_witness:
  "\<bar>45\<bar> \<le> (1000000 :: real)
   \<and> allclose (erstelle_rotationsmatrix_f64 405) (erstelle_rotationsmatrix_f64 45)
   \<and> allclose (erstelle_rotationsmatrix_f64 (fl 405)) (erstelle_rotationsmatrix_f64 45)"
  using periodisch_f64 [of 45 1] by simp

lemma produkt_fehler:
  fixes x y X Y :: real
  assumes "\<bar>x - X\<bar> \<le> 3 / 10000000000" and "\<bar>y - Y\<bar> \<le> 3 / 10000000000"
    and "\<bar>X\<bar> \<le> 1" and "\<bar>Y\<bar> \<le> 1"
  shows "\<bar>x * y - X * Y\<bar> \<le> 9 / 10000000000"
proof -
  have e: "x * y - X * Y = (x - X) * (y - Y) + X * (y - Y) + (x - X) * Y"
    by (simp add: algebra_simps)
  have a: "\<bar>(x - X) * (y - Y)\<bar> \<le> 3 / 10000000000 * 1"
    unfolding abs_mult using assms(1,2) by (intro mult_mono) simp_all
  have b: "\<bar>X * (y - Y)\<bar> \<le> 1 * (3 / 10000000000)"
    unfolding abs_mult using assms(2,3) by (intro mult_mono) simp_all
  have c: "\<bar>(x - X) * Y\<bar> \<le> 3 / 10000000000 * 1"
    unfolding abs_mult using assms(1,4) by (intro mult_mono) simp_all
  show ?thesis unfolding e using a b c by linarith
qed

lemma komposition_f64_nahe:
  assumes "\<bar>th1\<bar> \<le> 1000000" and "\<bar>th2\<bar> \<le> 1000000"
    and "\<bar>t - (th1 + th2)\<bar> \<le> 1 / 1000000000"
  shows "\<exists>P. matmul_matrix (erstelle_rotationsmatrix_f64 th1) (erstelle_rotationsmatrix_f64 th2)
             = Inr P
           \<and> allclose P (erstelle_rotationsmatrix_f64 t)"
proof -
  define c1 where "c1 = np_cos (np_radians th1)"
  define s1 where "s1 = np_sin (np_radians th1)"
  define c2 where "c2 = np_cos (np_radians th2)"
  define s2 where "s2 = np_sin (np_radians th2)"
  define ct where "ct = np_cos (np_radians t)"
  define st where "st = np_sin (np_radians t)"
  define C1 where "C1 = cos (radians th1)"
  define S1 where "S1 = sin (radians th1)"
  define C2 where "C2 = cos (radians th2)"
  define S2 where "S2 = sin (radians th2)"
  have b1: "\<bar>th1\<bar> \<le> 2000001" and b2: "\<bar>th2\<bar> \<le> 2000001"
    and b12: "\<bar>th1 + th2\<bar> \<le> 2000001"
    using assms(1,2) by linarith+
  have e1: "\<bar>c1 - C1\<bar> \<le> 3 / 10000000000" "\<bar>s1 - S1\<bar> \<le> 3 / 10000000000"
    using genauigkeit [OF b1, of th1] by (simp_all add: c1_def s1_def C1_def S1_def)
  have e2: "\<bar>c2 - C2\<bar> \<le> 3 / 10000000000" "\<bar>s2 - S2\<bar> \<le> 3 / 10000000000"
    using genauigkeit [OF b2, of th2] by (simp_all add: c2_def s2_def C2_def S2_def)
  have et: "\<bar>ct - (C1 * C2 - S1 * S2)\<bar> \<le> 3 / 10000000000"
    "\<bar>st - (S1 * C2 + C1 * S2)\<bar> \<le> 3 / 10000000000"
    using genauigkeit [OF b12 assms(3)]
    by (simp_all add: ct_def st_def C1_def S1_def C2_def S2_def radians_add cos_add sin_add)
  have g: "\<bar>C1\<bar> \<le> 1" "\<bar>S1\<bar> \<le> 1" "\<bar>C2\<bar> \<le> 1" "\<bar>S2\<bar> \<le> 1"
    by (simp_all add: C1_def S1_def C2_def S2_def)
  have p1: "\<bar>c1 * c2 - C1 * C2\<bar> \<le> 9 / 10000000000"
    using e1(1) e2(1) g(1) g(3) by (rule produkt_fehler)
  have p2: "\<bar>s1 * s2 - S1 * S2\<bar> \<le> 9 / 10000000000"
    using e1(2) e2(2) g(2) g(4) by (rule produkt_fehler)
  have p3: "\<bar>s1 * c2 - S1 * C2\<bar> \<le> 9 / 10000000000"
    using e1(2) e2(1) g(2) g(3) by (rule produkt_fehler)
  have p4: "\<bar>c1 * s2 - C1 * S2\<bar> \<le> 9 / 10000000000"
    using e1(1) e2(2) g(1) g(4) by (rule produkt_fehler)
  have P: "matmul_matrix (erstelle_rotationsmatrix_f64 th1) (erstelle_rotationsmatrix_f64 th2)
      = Inr [[c1 * c2 - s1 * s2, - (s1 * c2 + c1 * s2)], [s1 * c2 + c1 * s2, c1 * c2 - s1 * s2]]"
    by (simp add: rotationsmatrix_f64 matmul_matrix_2x2 c1_def s1_def c2_def s2_def)
  have T: "erstelle_rotationsmatrix_f64 t = [[ct, - st], [st, ct]]"
    by (simp add: rotationsmatrix_f64 ct_def st_def)
  have "allclose [[c1 * c2 - s1 * s2, - (s1 * c2 + c1 * s2)], [s1 * c2 + c1 * s2, c1 * c2 - s1 * s2]]
      [[ct, - st], [st, ct]]"
  proof (rule allclose_rotation)
    show "\<bar>c1 * c2 - s1 * s2 - ct\<bar> \<le> 1 / 100000000"
      using p1 p2 et(1) by linarith
    show "\<bar>s1 * c2 + c1 * s2 - st\<bar> \<le> 1 / 100000000"
      using p3 p4 et(2) by linarith
  qed
  then show ?thesis
    using P T by simp
qed

text \<open>
  C5, amended. For all angles \<open>th1\<close> and \<open>th2\<close> of at most \<open>10 ^ 6\<close> degrees in
  magnitude, the product of the matrices built for \<open>th1\<close> and for \<open>th2\<close> equals the
  matrix built for \<open>th1 + th2\<close> (the sum exact, or rounded to float64) within tolerance,
  in float64 arithmetic; the product of the two float64 matrices is taken exactly. In
  exact real arithmetic the product is the matrix of the summed angle for all angles.
\<close>

theorem komposition_f64:
  "(\<bar>th1\<bar> \<le> 1000000 \<and> \<bar>th2\<bar> \<le> 1000000 \<longrightarrow>
      (\<exists>P. matmul_matrix (erstelle_rotationsmatrix_f64 th1) (erstelle_rotationsmatrix_f64 th2)
             = Inr P
           \<and> allclose P (erstelle_rotationsmatrix_f64 (th1 + th2))
           \<and> allclose P (erstelle_rotationsmatrix_f64 (fl (th1 + th2)))))
   \<and> matmul_matrix (erstelle_rotationsmatrix th1) (erstelle_rotationsmatrix th2)
       = Inr (erstelle_rotationsmatrix (th1 + th2))"
proof -
  have "\<exists>P. matmul_matrix (erstelle_rotationsmatrix_f64 th1) (erstelle_rotationsmatrix_f64 th2)
             = Inr P
           \<and> allclose P (erstelle_rotationsmatrix_f64 (th1 + th2))
           \<and> allclose P (erstelle_rotationsmatrix_f64 (fl (th1 + th2)))"
    if h: "\<bar>th1\<bar> \<le> 1000000" "\<bar>th2\<bar> \<le> 1000000"
  proof -
    have "\<bar>th1 + th2\<bar> \<le> 2000001" using h by linarith
    then have n: "\<bar>fl (th1 + th2) - (th1 + th2)\<bar> \<le> 1 / 1000000000" by (rule fl_nahe)
    obtain P where P: "matmul_matrix (erstelle_rotationsmatrix_f64 th1)
          (erstelle_rotationsmatrix_f64 th2) = Inr P"
      and a: "allclose P (erstelle_rotationsmatrix_f64 (th1 + th2))"
      using komposition_f64_nahe [OF h, of "th1 + th2"] by auto
    obtain Q where Q: "matmul_matrix (erstelle_rotationsmatrix_f64 th1)
          (erstelle_rotationsmatrix_f64 th2) = Inr Q"
      and b: "allclose Q (erstelle_rotationsmatrix_f64 (fl (th1 + th2)))"
      using komposition_f64_nahe [OF h n] by auto
    from P Q have "Q = P" by simp
    with P a b show ?thesis by blast
  qed
  then show ?thesis
    using rotation_komposition_reell [of th1 th2] by blast
qed

theorem komposition_f64_witness:
  "\<bar>30\<bar> \<le> (1000000 :: real) \<and> \<bar>15\<bar> \<le> (1000000 :: real)
   \<and> (\<exists>P. matmul_matrix (erstelle_rotationsmatrix_f64 30) (erstelle_rotationsmatrix_f64 15)
             = Inr P
           \<and> allclose P (erstelle_rotationsmatrix_f64 45)
           \<and> allclose P (erstelle_rotationsmatrix_f64 (fl 45)))"
  using komposition_f64 [of 30 15] by simp

lemma klein_produkt:
  fixes a b :: real
  assumes "\<bar>a\<bar> \<le> 2" and "\<bar>b\<bar> \<le> 3 / 10000000000"
  shows "\<bar>a * b\<bar> \<le> 6 / 10000000000"
proof -
  have "\<bar>a * b\<bar> \<le> 2 * (3 / 10000000000)"
    unfolding abs_mult using assms by (intro mult_mono) simp_all
  then show ?thesis by simp
qed

text \<open>
  C5, as stated, fails in the arithmetic of the code: the composition law does not hold
  for all angles. For the float64 angles \<open>2 ^ 53\<close> and \<open>360\<close>, whose sum is a float64
  number too, the product of the two matrices is not equal within tolerance to the
  matrix built for the sum.
\<close>

theorem komposition_f64_verletzt:
  "\<exists>P. matmul_matrix (erstelle_rotationsmatrix_f64 (2 ^ 53)) (erstelle_rotationsmatrix_f64 360)
          = Inr P
        \<and> \<not> allclose P (erstelle_rotationsmatrix_f64 (2 ^ 53 + 360))"
proof -
  define c1 where "c1 = np_cos (np_radians (2 ^ 53))"
  define s1 where "s1 = np_sin (np_radians (2 ^ 53))"
  define c where "c = np_cos (np_radians 360)"
  define s where "s = np_sin (np_radians 360)"
  define c2 where "c2 = np_cos (np_radians (2 ^ 53 + 360))"
  define s2 where "s2 = np_sin (np_radians (2 ^ 53 + 360))"
  have e: "\<bar>c - 1\<bar> \<le> 3 / 10000000000" "\<bar>s\<bar> \<le> 3 / 10000000000"
    using genauigkeit [of 360 360] by (simp_all add: c_def s_def radians_360)
  have g: "\<bar>c1\<bar> \<le> 2" "\<bar>s1\<bar> \<le> 2" "\<bar>c2\<bar> \<le> 2" "\<bar>s2\<bar> \<le> 2"
    by (simp_all add: c1_def s1_def c2_def s2_def np_cos_betrag np_sin_betrag)
  have k1: "\<bar>c1 * (c - 1)\<bar> \<le> 6 / 10000000000" using g(1) e(1) by (rule klein_produkt)
  have k2: "\<bar>s1 * s\<bar> \<le> 6 / 10000000000" using g(2) e(2) by (rule klein_produkt)
  have k3: "\<bar>s1 * (c - 1)\<bar> \<le> 6 / 10000000000" using g(2) e(1) by (rule klein_produkt)
  have k4: "\<bar>c1 * s\<bar> \<le> 6 / 10000000000" using g(1) e(2) by (rule klein_produkt)
  have q1: "c1 * c - s1 * s - c1 = c1 * (c - 1) - s1 * s" by (simp add: algebra_simps)
  have q2: "s1 * c + c1 * s - s1 = s1 * (c - 1) + c1 * s" by (simp add: algebra_simps)
  have n1: "\<bar>(c1 * c - s1 * s) - c1\<bar> \<le> 12 / 10000000000"
    unfolding q1 using k1 k2 by linarith
  have n2: "\<bar>(s1 * c + c1 * s) - s1\<bar> \<le> 12 / 10000000000"
    unfolding q2 using k3 k4 by linarith
  have P: "matmul_matrix (erstelle_rotationsmatrix_f64 (2 ^ 53)) (erstelle_rotationsmatrix_f64 360)
      = Inr [[c1 * c - s1 * s, - (c1 * s + s1 * c)], [s1 * c + c1 * s, c1 * c - s1 * s]]"
    by (simp add: rotationsmatrix_f64 matmul_matrix_2x2 c1_def s1_def c_def s_def)
  have T: "erstelle_rotationsmatrix_f64 (2 ^ 53 + 360) = [[c2, - s2], [s2, c2]]"
    by (simp add: rotationsmatrix_f64 c2_def s2_def)
  have "108 / 100000 \<le> \<bar>c2 - c1\<bar> \<or> 108 / 100000 \<le> \<bar>s2 - s1\<bar>"
    using abweichung_f64 by (simp add: c1_def s1_def c2_def s2_def)
  then have "\<not> isclose (c1 * c - s1 * s) c2 \<or> \<not> isclose (s1 * c + c1 * s) s2"
  proof
    assume "108 / 100000 \<le> \<bar>c2 - c1\<bar>"
    then have "1 / 1000 \<le> \<bar>(c1 * c - s1 * s) - c2\<bar>" using n1 by linarith
    then have "\<not> isclose (c1 * c - s1 * s) c2" using g(3) by (rule nicht_isclose)
    then show ?thesis by blast
  next
    assume "108 / 100000 \<le> \<bar>s2 - s1\<bar>"
    then have "1 / 1000 \<le> \<bar>(s1 * c + c1 * s) - s2\<bar>" using n2 by linarith
    then have "\<not> isclose (s1 * c + c1 * s) s2" using g(4) by (rule nicht_isclose)
    then show ?thesis by blast
  qed
  then have "\<not> allclose [[c1 * c - s1 * s, - (c1 * s + s1 * c)], [s1 * c + c1 * s, c1 * c - s1 * s]]
      [[c2, - s2], [s2, c2]]"
    by (auto simp: allclose_def)
  with P T show ?thesis by simp
qed

end
